theory Spec2Isabelle
  imports Complex_Main "HOL-Library.Multiset"
begin

section \<open>Data model of AtxSacMakeTables.cpp\<close>

text \<open>
  The literal string that Rcpp's string conversion yields for a missing R character
  value; the program treats it as the marker of an unknown field.
\<close>

definition NaString :: string where
  "NaString = ''NA''"

text \<open>
  Rcpp's Datetime class is not part of the repository. It holds the time as a C++
  \<open>double\<close> (seconds since the epoch, with fractions), and a missing R value arrives
  as the not-a-number \<open>NA_REAL\<close>. The type \<open>double\<close> keeps what the program's
  comparisons depend on: a number or \<open>NaN\<close>. Rounding and the infinities play no
  part in the program and are left out.
\<close>

datatype double = NaN | Num real

text \<open>
  The comparison operators of C++ on doubles: every comparison with a not-a-number
  is false.
\<close>

fun double_less :: "double \<Rightarrow> double \<Rightarrow> bool" where
  "double_less (Num x) (Num y) = (x < y)"
| "double_less _ _ = False"

fun double_le :: "double \<Rightarrow> double \<Rightarrow> bool" where
  "double_le (Num x) (Num y) = (x \<le> y)"
| "double_le _ _ = False"

text \<open>
  The program observes a Datetime in two ways only: through the comparison
  operators \<open><\<close> and \<open><=\<close>, which compare the time \<open>m_dt\<close>, and through the calendar
  accessors getYear, getMonth and getDay. The record keeps exactly these
  observations; no relation between them is assumed, so every theorem below holds
  for whatever calendar the library implements.
\<close>

record Datetime =
  m_dt :: double
  getYear :: int
  getMonth :: int
  getDay :: int

datatype DayRelation = EarlierDay | SameDay | LaterDay

definition CompareByDay :: "Datetime \<Rightarrow> Datetime \<Rightarrow> DayRelation" where
  "CompareByDay dateTime1 dateTime2 =
     (let year1 = getYear dateTime1; year2 = getYear dateTime2 in
      if year1 < year2 then EarlierDay
      else if year1 > year2 then LaterDay
      else
        let month1 = getMonth dateTime1; month2 = getMonth dateTime2 in
        if month1 < month2 then EarlierDay
        else if month1 > month2 then LaterDay
        else
          let day1 = getDay dateTime1; day2 = getDay dateTime2 in
          if day1 < day2 then EarlierDay
          else if day1 > day2 then LaterDay
          else SameDay)"

record Intake =
  mIntakeDate :: Datetime
  mIntakeType :: string
  mIntakeSubType :: string
  mIntakeCondition :: string
  mIntakeLocation :: string
  mIntakeAgeCount :: int
  mIntakeAgeUnits :: string
  mIntakeAge :: int
  mIntakeSpayNeuter :: string
  mKennel :: string


record Outcome =
  mOutcomeDate :: Datetime
  mOutcomeType :: string
  mOutcomeSubType :: string
  mOutcomeCondition :: string
  mOutcomeSpayNeuter :: string


record Animal =
  mAnimalId :: string
  mKind :: string
  mGender :: string
  mName :: string
  mColor1 :: string
  mColor2 :: string
  mBreed1 :: string
  mBreed2 :: string
  mDateTime :: Datetime
  mIntakeList :: "Intake list"
  mOutcomeList :: "Outcome list"

text \<open>The constructor \<open>Animal (animalId, dateTime)\<close>: every attribute starts unknown.\<close>

definition new_Animal :: "string \<Rightarrow> Datetime \<Rightarrow> Animal" where
  "new_Animal animalId dateTime =
     \<lparr>mAnimalId = animalId, mKind = NaString, mGender = NaString, mName = NaString,
      mColor1 = NaString, mColor2 = NaString, mBreed1 = NaString, mBreed2 = NaString,
      mDateTime = dateTime, mIntakeList = [], mOutcomeList = []\<rparr>"

section \<open>Identity registry and merge policy\<close>

text \<open>
  \<open>Animal::UpdateIfNewer\<close>: the receiver is the first argument, the update-from
  animal the second. The early return is the first branch; the six conditional
  setters follow in the order of the source, then the timestamp assignment.
\<close>

definition UpdateIfNewer :: "Animal \<Rightarrow> Animal \<Rightarrow> Animal" where
  "UpdateIfNewer this animal =
     (if double_le (m_dt (mDateTime animal)) (m_dt (mDateTime this)) then this
      else
        let this1 = (if mName animal \<noteq> NaString then this\<lparr>mName := mName animal\<rparr> else this);
            this2 = (if mGender animal \<noteq> NaString then this1\<lparr>mGender := mGender animal\<rparr> else this1);
            this3 = (if mColor1 animal \<noteq> NaString then this2\<lparr>mColor1 := mColor1 animal\<rparr> else this2);
            this4 = (if mColor2 animal \<noteq> NaString then this3\<lparr>mColor2 := mColor2 animal\<rparr> else this3);
            this5 = (if mBreed1 animal \<noteq> NaString then this4\<lparr>mBreed1 := mBreed1 animal\<rparr> else this4);
            this6 = (if mBreed2 animal \<noteq> NaString then this5\<lparr>mBreed2 := mBreed2 animal\<rparr> else this5)
        in this6\<lparr>mDateTime := mDateTime animal\<rparr>)"

text \<open>
  \<open>AnimalMap\<close> is a \<open>std::map\<close> from animal ID to a shared animal object. The
  model stores the animal values themselves: an in-place update of the shared
  object is an update of the map entry.
\<close>

type_synonym AnimalMap = "string \<rightharpoonup> Animal"

definition Lookup :: "AnimalMap \<Rightarrow> string \<Rightarrow> Animal option" where
  "Lookup mAnimalMap animalId = mAnimalMap animalId"

definition Add :: "AnimalMap \<Rightarrow> Animal \<Rightarrow> AnimalMap" where
  "Add mAnimalMap animal = mAnimalMap(mAnimalId animal \<mapsto> animal)"

text \<open>
  \<open>DataFrameBuilder::AddAnimal\<close> returns the new state of the map together with
  the animal object that the caller goes on to use.
\<close>

definition AddAnimal :: "AnimalMap \<Rightarrow> Animal \<Rightarrow> AnimalMap \<times> Animal" where
  "AddAnimal mAnimalMap animal =
     (case Lookup mAnimalMap (mAnimalId animal) of
        Some existingAnimal \<Rightarrow>
          (let updated = UpdateIfNewer existingAnimal animal
           in (mAnimalMap(mAnimalId animal \<mapsto> updated), updated))
      | None \<Rightarrow> (Add mAnimalMap animal, animal))"

text \<open>
  The ingest loops call \<open>AddAnimal\<close> once per input row; \<open>AddAnimal_rows\<close> is the
  effect of these calls on the map for a list of candidate animals, in row order.
\<close>

definition AddAnimal_rows :: "AnimalMap \<Rightarrow> Animal list \<Rightarrow> AnimalMap" where
  "AddAnimal_rows mAnimalMap animals =
     foldl (\<lambda>m animal. fst (AddAnimal m animal)) mAnimalMap animals"

text \<open>
  The candidates that \<open>UpdateIfNewer\<close> accepts (those that pass its timestamp test)
  when a list of candidates is applied to an animal one after the other.
\<close>

fun accepted :: "Animal \<Rightarrow> Animal list \<Rightarrow> Animal list" where
  "accepted this [] = []"
| "accepted this (animal # animals) =
     (if double_le (m_dt (mDateTime animal)) (m_dt (mDateTime this))
      then accepted this animals
      else animal # accepted (UpdateIfNewer this animal) animals)"

text \<open>The descriptive attributes of an animal, to speak about each of them.\<close>

datatype attribute = Kind | Gender | Name | Color1 | Color2 | Breed1 | Breed2

fun attr :: "attribute \<Rightarrow> Animal \<Rightarrow> string" where
  "attr Kind a = mKind a"
| "attr Gender a = mGender a"
| "attr Name a = mName a"
| "attr Color1 a = mColor1 a"
| "attr Color2 a = mColor2 a"
| "attr Breed1 a = mBreed1 a"
| "attr Breed2 a = mBreed2 a"

section \<open>Ordering of an animal's events\<close>

text \<open>
  \<open>SortIntakes\<close> and \<open>SortOutcomes\<close> call \<open>std::sort\<close> on the whole event vector with
  the comparison functions \<open>IntakeTimeLessThan\<close> and \<open>OutcomeTimeCompare\<close>. \<open>std::sort\<close>
  is not code of the repository; what the program does at this point is what the
  C++ library does. The functions below follow the GNU C++ library (libstdc++,
  \<open>bits/stl_algo.h\<close> and \<open>bits/stl_heap.h\<close>), function by function and under the
  library's names without the leading underscores: an introsort (median-of-three
  quicksort down to ranges of 16 elements, heapsort when the recursion gets too
  deep) followed by one insertion sort over the whole vector.

  A vector is a list and an iterator is an index into it. Several loops of the
  library are unguarded: they rely on an element that stops them before they leave
  the vector. Where such a loop would read outside the vector, which is undefined
  behaviour in C++, the model returns \<open>None\<close>.
\<close>










































section \<open>Pairing engine\<close>

text \<open>
  \<open>GetIntakeAt\<close> and \<open>GetOutcomeAt\<close> read the vectors with \<open>at\<close>, which throws
  \<open>std::out_of_range\<close> for an index outside the vector (a negative \<open>int\<close> converts to
  an index beyond any vector).
\<close>

datatype error = OutOfRange

definition GetNumIntakes :: "Animal \<Rightarrow> int" where
  "GetNumIntakes animal = int (length (mIntakeList animal))"

definition GetNumOutcomes :: "Animal \<Rightarrow> int" where
  "GetNumOutcomes animal = int (length (mOutcomeList animal))"

definition GetIntakeAt :: "Animal \<Rightarrow> int \<Rightarrow> error + Intake" where
  "GetIntakeAt animal i =
     (if 0 \<le> i \<and> i < int (length (mIntakeList animal))
      then Inr (mIntakeList animal ! nat i) else Inl OutOfRange)"

definition GetOutcomeAt :: "Animal \<Rightarrow> int \<Rightarrow> error + Outcome" where
  "GetOutcomeAt animal i =
     (if 0 \<le> i \<and> i < int (length (mOutcomeList animal))
      then Inr (mOutcomeList animal ! nat i) else Inl OutOfRange)"

text \<open>
  A row of the impound table. The source appends one value to each column vector;
  the model keeps the row as the animal ID, the intake and the outcome it was made
  from. A solitary record is appended in the source with a freshly constructed
  \<open>Intake ()\<close> or \<open>Outcome ()\<close>, whose fields are all missing; that placeholder is
  \<open>None\<close> here.
\<close>

record ImpoundRow =
  rowAnimalId :: string
  rowIntake :: "Intake option"
  rowOutcome :: "Outcome option"

text \<open>
  What \<open>MergeAnimal\<close> writes: the builder's impound table and the console
  (\<open>Rcout\<close>), one string per line printed.
\<close>

record Output =
  mImpoundTable :: "ImpoundRow list"
  Rcout :: "string list"

definition Append :: "Animal \<Rightarrow> Intake option \<Rightarrow> Outcome option \<Rightarrow> Output \<Rightarrow> Output" where
  "Append animal intake outcome out =
     out\<lparr>mImpoundTable := mImpoundTable out @
       [\<lparr>rowAnimalId = mAnimalId animal, rowIntake = intake, rowOutcome = outcome\<rparr>]\<rparr>"

definition EmitSolitaryIntake :: "Animal \<Rightarrow> Intake \<Rightarrow> Output \<Rightarrow> Output" where
  "EmitSolitaryIntake animal intake out = Append animal (Some intake) None out"

definition EmitIntakeOutcome :: "Animal \<Rightarrow> Intake \<Rightarrow> Outcome \<Rightarrow> Output \<Rightarrow> Output" where
  "EmitIntakeOutcome animal intake outcome out = Append animal (Some intake) (Some outcome) out"

definition EmitSolitaryOutcome :: "Animal \<Rightarrow> Outcome \<Rightarrow> Output \<Rightarrow> Output" where
  "EmitSolitaryOutcome animal outcome out = Append animal None (Some outcome) out"

definition Warning :: "Animal \<Rightarrow> string \<Rightarrow> Output \<Rightarrow> Output" where
  "Warning animal message out =
     out\<lparr>Rcout := Rcout out @ [''WARNING '' @ mAnimalId animal @ '' - '' @ message]\<rparr>"

text \<open>
  The local variables of \<open>MergeAnimal\<close> together with what it has written. The
  four counters are C++ \<open>int\<close>s that stay between zero and the lengths of the event
  lists, so they are unbounded integers here; an animal with more events than an
  \<open>int\<close> can count is outside the model.
\<close>

record merge_state =
  numIntakesRemaining :: int
  numOutcomesRemaining :: int
  nextIntake :: int
  nextOutcome :: int
  written :: Output

text \<open>One iteration of the \<open>while\<close> loop of \<open>MergeAnimal\<close>.\<close>

definition MergeAnimal_body :: "Animal \<Rightarrow> merge_state \<Rightarrow> error + merge_state" where
  "MergeAnimal_body animal s =
     (case GetIntakeAt animal (nextIntake s) of
        Inl e \<Rightarrow> Inl e
      | Inr intake \<Rightarrow>
          if numOutcomesRemaining s = 0 then
            (if numIntakesRemaining s > 1 then
               (case GetIntakeAt animal (GetNumIntakes animal - 1) of
                  Inl e \<Rightarrow> Inl e
                | Inr lastIntake \<Rightarrow>
                    Inr (s\<lparr>written := EmitSolitaryIntake animal lastIntake
                                      (Warning animal ''Intake not matched with outcome.'' (written s)),
                           numIntakesRemaining := 0,
                           nextIntake := GetNumIntakes animal\<rparr>))
             else
               Inr (s\<lparr>written := EmitSolitaryIntake animal intake (written s),
                      numIntakesRemaining := numIntakesRemaining s - 1,
                      nextIntake := nextIntake s + 1\<rparr>))
          else
            (case GetOutcomeAt animal (nextOutcome s) of
               Inl e \<Rightarrow> Inl e
             | Inr outcome \<Rightarrow>
                 (let s1 = s\<lparr>numOutcomesRemaining := numOutcomesRemaining s - 1,
                              nextOutcome := nextOutcome s + 1\<rparr>
                  in if CompareByDay (mOutcomeDate outcome) (mIntakeDate intake) = EarlierDay then
                       (if numIntakesRemaining s1 = GetNumIntakes animal
                        then Inr (s1\<lparr>written := EmitSolitaryOutcome animal outcome (written s1)\<rparr>)
                        else Inr (s1\<lparr>written :=
                                    Warning animal ''Outcome out of order. Discarded.'' (written s1)\<rparr>))
                     else
                       Inr (s1\<lparr>written := EmitIntakeOutcome animal intake outcome (written s1),
                               numIntakesRemaining := numIntakesRemaining s1 - 1,
                               nextIntake := nextIntake s1 + 1\<rparr>))))"

text \<open>The \<open>while\<close> loop of \<open>MergeAnimal\<close>; an exception leaves the loop.\<close>

function MergeAnimal_loop :: "Animal \<Rightarrow> merge_state \<Rightarrow> error + merge_state" where
  "MergeAnimal_loop animal s =
     (if numIntakesRemaining s > 0 then
        (case MergeAnimal_body animal s of
           Inl e \<Rightarrow> Inl e
         | Inr s' \<Rightarrow> MergeAnimal_loop animal s')
      else Inr s)"
  by pat_completeness auto
termination
proof (relation "measure (\<lambda>(animal, s).
        nat (numIntakesRemaining s) + nat (GetNumOutcomes animal - nextOutcome s))")
  show "wf (measure (\<lambda>(animal, s).
        nat (numIntakesRemaining s) + nat (GetNumOutcomes animal - nextOutcome s)))"
    by simp
next
  fix animal s s'
  assume "0 < numIntakesRemaining s" and "MergeAnimal_body animal s = Inr s'"
  then have "nat (numIntakesRemaining s') + nat (GetNumOutcomes animal - nextOutcome s')
       < nat (numIntakesRemaining s) + nat (GetNumOutcomes animal - nextOutcome s)"
    by (auto simp: MergeAnimal_body_def GetOutcomeAt_def GetNumOutcomes_def Let_def
             split: sum.splits if_splits)
  then show "((animal, s'), (animal, s)) \<in> measure (\<lambda>(animal, s).
        nat (numIntakesRemaining s) + nat (GetNumOutcomes animal - nextOutcome s))"
    by simp
qed

declare MergeAnimal_loop.simps [simp del]

text \<open>The statements of \<open>MergeAnimal\<close> after the loop.\<close>

definition MergeAnimal_rest :: "Animal \<Rightarrow> merge_state \<Rightarrow> error + Output" where
  "MergeAnimal_rest animal s =
     (if numOutcomesRemaining s > 0 then
        (if GetNumIntakes animal = 0 then
           (case GetOutcomeAt animal (nextOutcome s) of
              Inl e \<Rightarrow> Inl e
            | Inr outcome \<Rightarrow> Inr (EmitSolitaryOutcome animal outcome (written s)))
         else Inr (Warning animal ''Extra outcomes remaining at end.'' (written s)))
      else Inr (written s))"

text \<open>\<open>MergeAnimal\<close> from a given state of its local variables onwards.\<close>

definition MergeAnimal_from :: "Animal \<Rightarrow> merge_state \<Rightarrow> error + Output" where
  "MergeAnimal_from animal s =
     (case MergeAnimal_loop animal s of
        Inl e \<Rightarrow> Inl e
      | Inr s' \<Rightarrow> MergeAnimal_rest animal s')"

definition MergeAnimal_init :: "Animal \<Rightarrow> Output \<Rightarrow> merge_state" where
  "MergeAnimal_init animal out =
     \<lparr>numIntakesRemaining = GetNumIntakes animal,
      numOutcomesRemaining = GetNumOutcomes animal,
      nextIntake = 0, nextOutcome = 0, written = out\<rparr>"

definition MergeAnimal :: "Animal \<Rightarrow> Output \<Rightarrow> error + Output" where
  "MergeAnimal animal out = MergeAnimal_from animal (MergeAnimal_init animal out)"

text \<open>
  The loop again, with a bound on the number of iterations it may run: \<open>None\<close>
  means that the bound was reached with the loop condition still true.
\<close>

fun MergeAnimal_loop_bounded :: "nat \<Rightarrow> Animal \<Rightarrow> merge_state \<Rightarrow> (error + merge_state) option" where
  "MergeAnimal_loop_bounded 0 animal s =
     (if numIntakesRemaining s > 0 then None else Some (Inr s))"
| "MergeAnimal_loop_bounded (Suc k) animal s =
     (if numIntakesRemaining s > 0 then
        (case MergeAnimal_body animal s of
           Inl e \<Rightarrow> Some (Inl e)
         | Inr s' \<Rightarrow> MergeAnimal_loop_bounded k animal s')
      else Some (Inr s))"

text \<open>
  The states in which a run of \<open>MergeAnimal\<close> on an animal, started with the given
  output, stands at the head of its loop.
\<close>

inductive MergeAnimal_reaches :: "Animal \<Rightarrow> Output \<Rightarrow> merge_state \<Rightarrow> bool"
  for animal :: Animal and out :: Output where
  start: "MergeAnimal_reaches animal out (MergeAnimal_init animal out)"
| iterate: "MergeAnimal_reaches animal out s \<Longrightarrow> 0 < numIntakesRemaining s \<Longrightarrow>
     MergeAnimal_body animal s = Inr s' \<Longrightarrow> MergeAnimal_reaches animal out s'"

text \<open>The relation between the cursors and the counters that the loop maintains.\<close>

definition MergeAnimal_inv :: "Animal \<Rightarrow> merge_state \<Rightarrow> bool" where
  "MergeAnimal_inv animal s =
     (0 \<le> nextIntake s \<and> 0 \<le> numIntakesRemaining s \<and>
      nextIntake s + numIntakesRemaining s = GetNumIntakes animal \<and>
      0 \<le> nextOutcome s \<and> 0 \<le> numOutcomesRemaining s \<and>
      nextOutcome s + numOutcomesRemaining s = GetNumOutcomes animal)"

section \<open>Example data\<close>

text \<open>Midnight (UTC) of some days of 2024.\<close>

definition date_2024_01_01 :: Datetime where
  "date_2024_01_01 = \<lparr>m_dt = Num 1704067200, getYear = 2024, getMonth = 1, getDay = 1\<rparr>"

definition date_2024_01_05 :: Datetime where
  "date_2024_01_05 = \<lparr>m_dt = Num 1704412800, getYear = 2024, getMonth = 1, getDay = 5\<rparr>"

definition date_2024_01_10 :: Datetime where
  "date_2024_01_10 = \<lparr>m_dt = Num 1704844800, getYear = 2024, getMonth = 1, getDay = 10\<rparr>"

definition date_2024_02_01 :: Datetime where
  "date_2024_02_01 = \<lparr>m_dt = Num 1706745600, getYear = 2024, getMonth = 2, getDay = 1\<rparr>"

definition date_2024_03_01 :: Datetime where
  "date_2024_03_01 = \<lparr>m_dt = Num 1709251200, getYear = 2024, getMonth = 3, getDay = 1\<rparr>"

definition date_2024_03_05 :: Datetime where
  "date_2024_03_05 = \<lparr>m_dt = Num 1709596800, getYear = 2024, getMonth = 3, getDay = 5\<rparr>"

text \<open>
  The start of the epoch, and a missing date as it arrives from a row without a
  date: its time is not a number. The merge policy does not look at the calendar
  fields; zero stands there for whatever the library reports for a missing date.
\<close>

definition date_1970_01_01 :: Datetime where
  "date_1970_01_01 = \<lparr>m_dt = Num 0, getYear = 1970, getMonth = 1, getDay = 1\<rparr>"

definition missing_date :: Datetime where
  "missing_date = \<lparr>m_dt = NaN, getYear = 0, getMonth = 0, getDay = 0\<rparr>"

text \<open>
  Two rows for the animal A100 as an ingest function turns them into candidate
  animals: the first names it Rex and gives no kind, the second, nine days later,
  gives the kind, another color and no name.
\<close>

definition rex_row1 :: Animal where
  "rex_row1 = (new_Animal ''A100'' date_2024_01_01)\<lparr>mName := ''Rex'', mColor1 := ''black''\<rparr>"

definition rex_row2 :: Animal where
  "rex_row2 = (new_Animal ''A100'' date_2024_01_10)\<lparr>mKind := ''Dog'', mColor1 := ''brown''\<rparr>"

text \<open>
  Two further rows for A100 with no attribute known: one without a date, one dated
  at the start of the epoch.
\<close>

definition undated_row :: Animal where
  "undated_row = new_Animal ''A100'' missing_date"

definition epoch_row :: Animal where
  "epoch_row = new_Animal ''A100'' date_1970_01_01"

text \<open>An intake and an outcome as the Austin ingest functions build them from a row.\<close>

definition stray_intake :: "Datetime \<Rightarrow> Intake" where
  "stray_intake d =
     \<lparr>mIntakeDate = d, mIntakeType = ''Stray'', mIntakeSubType = NaString,
      mIntakeCondition = ''Normal'', mIntakeLocation = ''Austin (TX)'',
      mIntakeAgeCount = 2, mIntakeAgeUnits = ''yr'', mIntakeAge = 63072000,
      mIntakeSpayNeuter = ''Intact'', mKennel = NaString\<rparr>"

definition adoption :: "Datetime \<Rightarrow> Outcome" where
  "adoption d =
     \<lparr>mOutcomeDate = d, mOutcomeType = ''Adoption'', mOutcomeSubType = ''Foster'',
      mOutcomeCondition = NaString, mOutcomeSpayNeuter = ''Altered''\<rparr>"

text \<open>An empty impound table and a console on which nothing has been printed.\<close>

definition no_output :: Output where
  "no_output = \<lparr>mImpoundTable = [], Rcout = []\<rparr>"

text \<open>Animals with the event lists of the specification's scenarios A, B and D.\<close>

definition scenario_A :: Animal where
  "scenario_A = (new_Animal ''A100'' date_2024_01_01)
     \<lparr>mIntakeList := [stray_intake date_2024_01_01], mOutcomeList := [adoption date_2024_01_05]\<rparr>"

definition scenario_B :: Animal where
  "scenario_B = (new_Animal ''A100'' date_2024_01_01)
     \<lparr>mIntakeList := [stray_intake date_2024_01_01, stray_intake date_2024_01_10]\<rparr>"

definition scenario_D :: Animal where
  "scenario_D = (new_Animal ''A100'' date_2024_03_05)
     \<lparr>mIntakeList := [stray_intake date_2024_03_05], mOutcomeList := [adoption date_2024_03_01]\<rparr>"

text \<open>An animal with two outcome rows and no intake row.\<close>

definition two_outcomes_no_intake :: Animal where
  "two_outcomes_no_intake = (new_Animal ''A200'' date_2024_02_01)
     \<lparr>mOutcomeList := [adoption date_2024_02_01, adoption date_2024_03_01]\<rparr>"




section \<open>Properties of the merge policy\<close>

lemma double_le_refl: "d \<noteq> NaN \<Longrightarrow> double_le d d"
  by (cases d) simp_all

lemma double_le_trans: "double_le a b \<Longrightarrow> double_le b c \<Longrightarrow> double_le a c"
  by (cases a; cases b; cases c) simp_all

lemma double_le_total: "a \<noteq> NaN \<Longrightarrow> b \<noteq> NaN \<Longrightarrow> \<not> double_le a b \<Longrightarrow> double_le b a"
  by (cases a; cases b) simp_all

lemma UpdateIfNewer_older:
  "double_le (m_dt (mDateTime animal)) (m_dt (mDateTime this)) \<Longrightarrow>
   UpdateIfNewer this animal = this"
  by (simp add: UpdateIfNewer_def)

text \<open>
  Claim C7. When the identity already has a canonical record and the candidate's
  timestamp is equal to or earlier than the record's timestamp, \<open>AddAnimal\<close> leaves
  the registry as it was and returns the existing record unchanged: every attribute
  and the reference timestamp keep their values, and no error is raised.
\<close>

theorem AddAnimal_not_newer_unchanged:
  assumes "Lookup mAnimalMap (mAnimalId animal) = Some existingAnimal"
    and "double_le (m_dt (mDateTime animal)) (m_dt (mDateTime existingAnimal))"
  shows "AddAnimal mAnimalMap animal = (mAnimalMap, existingAnimal)"
proof -
  have "mAnimalMap (mAnimalId animal) = Some existingAnimal"
    using assms(1) by (simp add: Lookup_def)
  then have "mAnimalMap(mAnimalId animal \<mapsto> existingAnimal) = mAnimalMap"
    by (rule map_upd_triv)
  then show ?thesis
    using assms by (simp add: AddAnimal_def UpdateIfNewer_older)
qed

theorem AddAnimal_not_newer_unchanged_witness:
  "Lookup [''A100'' \<mapsto> rex_row2] (mAnimalId rex_row1) = Some rex_row2 \<and>
   double_le (m_dt (mDateTime rex_row1)) (m_dt (mDateTime rex_row2)) \<and>
   AddAnimal [''A100'' \<mapsto> rex_row2] rex_row1 = ([''A100'' \<mapsto> rex_row2], rex_row2)"
proof -
  have l: "Lookup [''A100'' \<mapsto> rex_row2] (mAnimalId rex_row1) = Some rex_row2"
    by (simp add: Lookup_def rex_row1_def new_Animal_def)
  have t: "double_le (m_dt (mDateTime rex_row1)) (m_dt (mDateTime rex_row2))"
    by (simp add: rex_row1_def rex_row2_def new_Animal_def date_2024_01_01_def date_2024_01_10_def)
  show ?thesis
    using l t AddAnimal_not_newer_unchanged [OF l t] by simp
qed

lemma UpdateIfNewer_attr:
  "\<not> double_le (m_dt (mDateTime animal)) (m_dt (mDateTime this)) \<Longrightarrow>
   attr f (UpdateIfNewer this animal) =
     (if f \<noteq> Kind \<and> attr f animal \<noteq> NaString then attr f animal else attr f this)"
  by (cases f) (simp_all add: UpdateIfNewer_def Let_def)

lemma UpdateIfNewer_mDateTime:
  "\<not> double_le (m_dt (mDateTime animal)) (m_dt (mDateTime this)) \<Longrightarrow>
   mDateTime (UpdateIfNewer this animal) = mDateTime animal"
  by (simp add: UpdateIfNewer_def Let_def)

lemma AddAnimal_rows_Cons:
  "AddAnimal_rows mAnimalMap (animal # animals) =
   AddAnimal_rows (fst (AddAnimal mAnimalMap animal)) animals"
  by (simp add: AddAnimal_rows_def)

lemma AddAnimal_at:
  "mAnimalMap animalId = Some existing \<Longrightarrow>
   fst (AddAnimal mAnimalMap animal) animalId =
     Some (if mAnimalId animal = animalId then UpdateIfNewer existing animal else existing)"
  by (auto simp: AddAnimal_def Lookup_def Add_def Let_def split: option.splits)

lemma AddAnimal_rows_existing:
  "mAnimalMap animalId = Some existing \<Longrightarrow>
   AddAnimal_rows mAnimalMap animals animalId =
     Some (foldl UpdateIfNewer existing (filter (\<lambda>c. mAnimalId c = animalId) animals))"
proof (induction animals arbitrary: mAnimalMap existing)
  case Nil
  then show ?case by (simp add: AddAnimal_rows_def)
next
  case (Cons animal animals)
  have "fst (AddAnimal mAnimalMap animal) animalId =
     Some (if mAnimalId animal = animalId then UpdateIfNewer existing animal else existing)"
    using Cons.prems by (rule AddAnimal_at)
  then have "AddAnimal_rows (fst (AddAnimal mAnimalMap animal)) animals animalId =
     Some (foldl UpdateIfNewer
       (if mAnimalId animal = animalId then UpdateIfNewer existing animal else existing)
       (filter (\<lambda>c. mAnimalId c = animalId) animals))"
    by (rule Cons.IH)
  then show ?case
    by (simp add: AddAnimal_rows_Cons)
qed

lemma AddAnimal_existing:
  "mAnimalMap (mAnimalId animal) = Some existing \<Longrightarrow>
   snd (AddAnimal mAnimalMap animal) = UpdateIfNewer existing animal"
  by (simp add: AddAnimal_def Lookup_def Let_def)

text \<open>
  With every timestamp present, the timestamp after a list of candidates is an
  upper bound of the timestamps of the record and of the accepted candidates, and
  it is the timestamp of one of them.
\<close>

lemma foldl_UpdateIfNewer_max:
  assumes "m_dt (mDateTime this) \<noteq> NaN" and "\<forall>c\<in>set cs. m_dt (mDateTime c) \<noteq> NaN"
  shows "(\<forall>c\<in>set (this # accepted this cs).
            double_le (m_dt (mDateTime c)) (m_dt (mDateTime (foldl UpdateIfNewer this cs)))) \<and>
         (\<exists>c\<in>set (this # accepted this cs).
            mDateTime c = mDateTime (foldl UpdateIfNewer this cs))"
  using assms
proof (induction cs arbitrary: this)
  case Nil
  then show ?case by (simp add: double_le_refl)
next
  case (Cons c cs)
  show ?case
  proof (cases "double_le (m_dt (mDateTime c)) (m_dt (mDateTime this))")
    case True
    with Cons.IH [of this] Cons.prems show ?thesis
      by (simp add: UpdateIfNewer_older)
  next
    case False
    let ?u = "UpdateIfNewer this c"
    let ?final = "foldl UpdateIfNewer ?u cs"
    from False have d: "mDateTime ?u = mDateTime c"
      by (rule UpdateIfNewer_mDateTime)
    with Cons.prems have "m_dt (mDateTime ?u) \<noteq> NaN" and "\<forall>c\<in>set cs. m_dt (mDateTime c) \<noteq> NaN"
      by simp_all
    from Cons.IH [OF this]
    have ub: "\<forall>x\<in>set (?u # accepted ?u cs).
                double_le (m_dt (mDateTime x)) (m_dt (mDateTime ?final))"
      and at: "\<exists>x\<in>set (?u # accepted ?u cs). mDateTime x = mDateTime ?final"
      by blast+
    from ub d have cf: "double_le (m_dt (mDateTime c)) (m_dt (mDateTime ?final))"
      by simp
    from False Cons.prems have "double_le (m_dt (mDateTime this)) (m_dt (mDateTime c))"
      by (simp add: double_le_total)
    then have tf: "double_le (m_dt (mDateTime this)) (m_dt (mDateTime ?final))"
      using cf by (rule double_le_trans)
    have 1: "\<forall>x\<in>set (this # accepted this (c # cs)).
               double_le (m_dt (mDateTime x)) (m_dt (mDateTime (foldl UpdateIfNewer this (c # cs))))"
      using False ub cf tf by simp
    from at d have "\<exists>x\<in>set (c # accepted ?u cs). mDateTime x = mDateTime ?final"
      by auto
    then have 2: "\<exists>x\<in>set (this # accepted this (c # cs)).
               mDateTime x = mDateTime (foldl UpdateIfNewer this (c # cs))"
      using False by auto
    from 1 2 show ?thesis by blast
  qed
qed

lemma foldl_UpdateIfNewer_attr:
  "attr f this \<noteq> NaString \<Longrightarrow>
   attr f (foldl UpdateIfNewer this cs) \<noteq> NaString \<and>
   (attr f (foldl UpdateIfNewer this cs) = attr f this \<or>
    (\<exists>c\<in>set (accepted this cs). attr f c = attr f (foldl UpdateIfNewer this cs)))"
proof (induction cs arbitrary: this)
  case Nil
  then show ?case by simp
next
  case (Cons c cs)
  show ?case
  proof (cases "double_le (m_dt (mDateTime c)) (m_dt (mDateTime this))")
    case True
    then show ?thesis
      using Cons.IH [OF Cons.prems] by (simp add: UpdateIfNewer_older)
  next
    case False
    then have u: "attr f (UpdateIfNewer this c) =
        (if f \<noteq> Kind \<and> attr f c \<noteq> NaString then attr f c else attr f this)"
      by (simp add: UpdateIfNewer_attr)
    with Cons.prems have "attr f (UpdateIfNewer this c) \<noteq> NaString"
      by simp
    from Cons.IH [OF this] u False show ?thesis
      by (auto split: if_splits)
  qed
qed

lemma accepted_subset: "set (accepted this cs) \<subseteq> set cs"
  by (induction cs arbitrary: this) auto

text \<open>
  Claim C8, as amended. For an identity with a canonical record, where the record
  and all candidate rows for the identity carry a timestamp (none is missing):
  after the \<open>AddAnimal\<close> calls for any list of candidate rows the record's
  reference timestamp is the maximum of the initial record's timestamp and the
  timestamps of the candidates accepted for that identity (it is the timestamp of
  one of them and none of them is later); the timestamp never decreases from one
  state to a later one. And a candidate that passes the timestamp test of
  \<open>UpdateIfNewer\<close> moves the reference timestamp to its own, whatever its attribute
  values are.
\<close>

theorem AddAnimal_rows_reference_timestamp:
  assumes "mAnimalMap animalId = Some existing"
    and "m_dt (mDateTime existing) \<noteq> NaN"
    and "\<forall>c\<in>set (animals1 @ animals2). mAnimalId c = animalId \<longrightarrow> m_dt (mDateTime c) \<noteq> NaN"
  shows "\<exists>merged1 merged2.
     AddAnimal_rows mAnimalMap animals1 animalId = Some merged1 \<and>
     AddAnimal_rows mAnimalMap (animals1 @ animals2) animalId = Some merged2 \<and>
     (\<forall>c\<in>set (existing #
                accepted existing (filter (\<lambda>c. mAnimalId c = animalId) (animals1 @ animals2))).
        double_le (m_dt (mDateTime c)) (m_dt (mDateTime merged2))) \<and>
     (\<exists>c\<in>set (existing #
                accepted existing (filter (\<lambda>c. mAnimalId c = animalId) (animals1 @ animals2))).
        mDateTime c = mDateTime merged2) \<and>
     double_le (m_dt (mDateTime existing)) (m_dt (mDateTime merged1)) \<and>
     double_le (m_dt (mDateTime merged1)) (m_dt (mDateTime merged2)) \<and>
     (mAnimalId candidate = animalId \<and>
      \<not> double_le (m_dt (mDateTime candidate)) (m_dt (mDateTime existing)) \<longrightarrow>
        mDateTime (snd (AddAnimal mAnimalMap candidate)) = mDateTime candidate)"
proof -
  let ?own = "filter (\<lambda>c. mAnimalId c = animalId)"
  let ?m1 = "foldl UpdateIfNewer existing (?own animals1)"
  let ?m2 = "foldl UpdateIfNewer existing (?own (animals1 @ animals2))"
  have n1: "\<forall>c\<in>set (?own animals1). m_dt (mDateTime c) \<noteq> NaN"
    and n2: "\<forall>c\<in>set (?own animals2). m_dt (mDateTime c) \<noteq> NaN"
    and n12: "\<forall>c\<in>set (?own (animals1 @ animals2)). m_dt (mDateTime c) \<noteq> NaN"
    using assms(3) by auto
  have 1: "AddAnimal_rows mAnimalMap animals1 animalId = Some ?m1"
    using assms(1) by (rule AddAnimal_rows_existing)
  have 2: "AddAnimal_rows mAnimalMap (animals1 @ animals2) animalId = Some ?m2"
    using assms(1) by (rule AddAnimal_rows_existing)
  note 3 = foldl_UpdateIfNewer_max [OF assms(2) n12]
  from foldl_UpdateIfNewer_max [OF assms(2) n1]
  have 4: "double_le (m_dt (mDateTime existing)) (m_dt (mDateTime ?m1))"
    and "\<exists>c\<in>set (existing # accepted existing (?own animals1)). mDateTime c = mDateTime ?m1"
    by auto
  then obtain c where "c \<in> set (existing # ?own animals1)" and "mDateTime c = mDateTime ?m1"
    using accepted_subset [of existing "?own animals1"] by auto
  with assms(2) n1 have m1: "m_dt (mDateTime ?m1) \<noteq> NaN"
    by (metis set_ConsD)
  have "?m2 = foldl UpdateIfNewer ?m1 (?own animals2)"
    by simp
  with foldl_UpdateIfNewer_max [OF m1 n2]
  have 5: "double_le (m_dt (mDateTime ?m1)) (m_dt (mDateTime ?m2))"
    by simp
  have 6: "mDateTime (snd (AddAnimal mAnimalMap candidate)) = mDateTime candidate"
    if "mAnimalId candidate = animalId"
      and "\<not> double_le (m_dt (mDateTime candidate)) (m_dt (mDateTime existing))"
    using that assms(1) by (simp add: AddAnimal_existing UpdateIfNewer_mDateTime)
  from 1 2 3 4 5 6 show ?thesis
    by blast
qed

theorem AddAnimal_rows_reference_timestamp_witness:
  "[''A100'' \<mapsto> rex_row1] ''A100'' = Some rex_row1 \<and>
   m_dt (mDateTime rex_row1) \<noteq> NaN \<and>
   m_dt (mDateTime rex_row2) \<noteq> NaN \<and>
   mAnimalId rex_row2 = ''A100'' \<and>
   \<not> double_le (m_dt (mDateTime rex_row2)) (m_dt (mDateTime rex_row1)) \<and>
   accepted rex_row1 [rex_row2, rex_row1] = [rex_row2] \<and>
   (\<exists>merged1 merged2.
      AddAnimal_rows [''A100'' \<mapsto> rex_row1] [rex_row2] ''A100'' = Some merged1 \<and>
      AddAnimal_rows [''A100'' \<mapsto> rex_row1] ([rex_row2] @ [rex_row1]) ''A100'' = Some merged2 \<and>
      mDateTime merged2 = date_2024_01_10 \<and>
      double_le (m_dt (mDateTime rex_row1)) (m_dt (mDateTime merged1)) \<and>
      double_le (m_dt (mDateTime merged1)) (m_dt (mDateTime merged2))) \<and>
   mDateTime (snd (AddAnimal [''A100'' \<mapsto> rex_row1] rex_row2)) = mDateTime rex_row2"
proof -
  have e: "[''A100'' \<mapsto> rex_row1] ''A100'' = Some rex_row1"
    by simp
  have i: "mAnimalId rex_row2 = ''A100''" "mAnimalId rex_row1 = ''A100''"
    by (simp_all add: rex_row1_def rex_row2_def new_Animal_def)
  have t: "mDateTime rex_row1 = date_2024_01_01" "mDateTime rex_row2 = date_2024_01_10"
    "m_dt date_2024_01_01 = Num 1704067200" "m_dt date_2024_01_10 = Num 1704844800"
    by (simp_all add: rex_row1_def rex_row2_def new_Animal_def date_2024_01_01_def
        date_2024_01_10_def)
  have u: "mDateTime (UpdateIfNewer rex_row1 rex_row2) = date_2024_01_10"
    by (simp add: UpdateIfNewer_mDateTime t)
  have a: "accepted rex_row1 [rex_row2, rex_row1] = [rex_row2]"
    by (simp add: t u)
  have n: "\<not> double_le (m_dt (mDateTime rex_row2)) (m_dt (mDateTime rex_row1))"
    by (simp add: t)
  from AddAnimal_rows_reference_timestamp
    [where mAnimalMap = "[''A100'' \<mapsto> rex_row1]" and animalId = "''A100''"
       and existing = rex_row1 and ?animals1.0 = "[rex_row2]" and ?animals2.0 = "[rex_row1]"
       and candidate = rex_row2] e i t a n
  obtain merged1 merged2 where
    r1: "AddAnimal_rows [''A100'' \<mapsto> rex_row1] [rex_row2] ''A100'' = Some merged1"
    and r2: "AddAnimal_rows [''A100'' \<mapsto> rex_row1] ([rex_row2] @ [rex_row1]) ''A100'' = Some merged2"
    and ub: "double_le (Num 1704844800) (m_dt (mDateTime merged2))"
    and at: "date_2024_01_01 = mDateTime merged2 \<or> date_2024_01_10 = mDateTime merged2"
    and mo: "double_le (m_dt (mDateTime rex_row1)) (m_dt (mDateTime merged1))"
      "double_le (m_dt (mDateTime merged1)) (m_dt (mDateTime merged2))"
    and ad: "mDateTime (snd (AddAnimal [''A100'' \<mapsto> rex_row1] rex_row2)) = mDateTime rex_row2"
    by auto
  have "mDateTime merged2 \<noteq> date_2024_01_01"
  proof
    assume "mDateTime merged2 = date_2024_01_01"
    with ub show False by (simp add: t)
  qed
  with at have "mDateTime merged2 = date_2024_01_10"
    by auto
  with r1 r2 mo ad e i t a n show ?thesis
    by auto
qed

text \<open>
  Claim C8, as stated, fails where a candidate row has no date. The record of
  2024-01-01 accepts the undated row, since no comparison with a missing time
  holds, and takes over its missing timestamp; for the same reason it then accepts
  the row of 1970-01-01. Both candidates were accepted, and the reference timestamp
  ends earlier than the initial record's.
\<close>

theorem AddAnimal_rows_timestamp_regresses:
  "AddAnimal_rows [''A100'' \<mapsto> rex_row1] [undated_row] ''A100'' =
     Some (rex_row1\<lparr>mDateTime := missing_date\<rparr>) \<and>
   AddAnimal_rows [''A100'' \<mapsto> rex_row1] [undated_row, epoch_row] ''A100'' =
     Some (rex_row1\<lparr>mDateTime := date_1970_01_01\<rparr>) \<and>
   accepted rex_row1 [undated_row, epoch_row] = [undated_row, epoch_row] \<and>
   mDateTime rex_row1 = date_2024_01_01 \<and>
   double_less (m_dt date_1970_01_01) (m_dt date_2024_01_01)"
  by (simp add: AddAnimal_rows_def AddAnimal_def Lookup_def UpdateIfNewer_def Let_def
        rex_row1_def undated_row_def epoch_row_def new_Animal_def NaString_def
        missing_date_def date_1970_01_01_def date_2024_01_01_def)

text \<open>
  Claim C9. For an identity with a canonical record and any descriptive attribute
  that holds a known value in it, after the \<open>AddAnimal\<close> calls for any list of
  candidate rows the attribute still holds a known value, never the unknown marker:
  either the value it held, or the value that a candidate accepted for that
  identity supplied.
\<close>

theorem AddAnimal_rows_attribute_stays_known:
  assumes "mAnimalMap animalId = Some existing"
    and "attr f existing \<noteq> NaString"
  shows "\<exists>merged.
     AddAnimal_rows mAnimalMap animals animalId = Some merged \<and>
     attr f merged \<noteq> NaString \<and>
     (attr f merged = attr f existing \<or>
      (\<exists>c\<in>set (accepted existing (filter (\<lambda>c. mAnimalId c = animalId) animals)).
         attr f c \<noteq> NaString \<and> attr f c = attr f merged))"
proof -
  let ?cs = "filter (\<lambda>c. mAnimalId c = animalId) animals"
  have "AddAnimal_rows mAnimalMap animals animalId = Some (foldl UpdateIfNewer existing ?cs)"
    using assms(1) by (rule AddAnimal_rows_existing)
  moreover have "attr f (foldl UpdateIfNewer existing ?cs) \<noteq> NaString \<and>
     (attr f (foldl UpdateIfNewer existing ?cs) = attr f existing \<or>
      (\<exists>c\<in>set (accepted existing ?cs).
         attr f c \<noteq> NaString \<and> attr f c = attr f (foldl UpdateIfNewer existing ?cs)))"
  proof -
    from foldl_UpdateIfNewer_attr [OF assms(2), of ?cs]
    have n: "attr f (foldl UpdateIfNewer existing ?cs) \<noteq> NaString"
      and d: "attr f (foldl UpdateIfNewer existing ?cs) = attr f existing \<or>
        (\<exists>c\<in>set (accepted existing ?cs). attr f c = attr f (foldl UpdateIfNewer existing ?cs))"
      by blast+
    from d show ?thesis
    proof
      assume "attr f (foldl UpdateIfNewer existing ?cs) = attr f existing"
      with n show ?thesis by blast
    next
      assume "\<exists>c\<in>set (accepted existing ?cs).
        attr f c = attr f (foldl UpdateIfNewer existing ?cs)"
      then obtain c where "c \<in> set (accepted existing ?cs)"
        and "attr f c = attr f (foldl UpdateIfNewer existing ?cs)"
        by blast
      with n have "c \<in> set (accepted existing ?cs) \<and> attr f c \<noteq> NaString \<and>
          attr f c = attr f (foldl UpdateIfNewer existing ?cs)"
        by simp
      with n show ?thesis by blast
    qed
  qed
  ultimately show ?thesis
    by blast
qed

theorem AddAnimal_rows_attribute_stays_known_witness:
  "[''A100'' \<mapsto> rex_row1] ''A100'' = Some rex_row1 \<and>
   attr Color1 rex_row1 \<noteq> NaString \<and>
   (\<exists>merged.
      AddAnimal_rows [''A100'' \<mapsto> rex_row1] [rex_row2] ''A100'' = Some merged \<and>
      attr Color1 merged \<noteq> NaString \<and>
      (attr Color1 merged = attr Color1 rex_row1 \<or>
       (\<exists>c\<in>set (accepted rex_row1 [rex_row2]).
          attr Color1 c \<noteq> NaString \<and> attr Color1 c = attr Color1 merged)))"
proof -
  have e: "[''A100'' \<mapsto> rex_row1] ''A100'' = Some rex_row1"
    by simp
  have k: "attr Color1 rex_row1 \<noteq> NaString"
    by (simp add: rex_row1_def NaString_def)
  have i: "mAnimalId rex_row2 = ''A100''"
    by (simp add: rex_row2_def new_Animal_def)
  from AddAnimal_rows_attribute_stays_known
    [where mAnimalMap = "[''A100'' \<mapsto> rex_row1]" and animalId = "''A100''"
       and existing = rex_row1 and f = Color1 and animals = "[rex_row2]"] e k i
  show ?thesis
    by simp
qed

text \<open>\<open>UpdateIfNewer\<close> has no statement that writes the kind.\<close>

lemma UpdateIfNewer_mKind: "mKind (UpdateIfNewer this animal) = mKind this"
  by (simp add: UpdateIfNewer_def Let_def)

text \<open>
  Claim C1, at a canonical record whose kind is unknown and a newer candidate
  whose kind is known. \<open>AddAnimal\<close> accepts the merge (color and timestamp are
  taken from the candidate, the unknown name is skipped), but the kind of the
  canonical record stays unknown.
\<close>

theorem AddAnimal_kind_not_merged:
  "double_less (m_dt (mDateTime rex_row1)) (m_dt (mDateTime rex_row2)) \<and>
   mKind rex_row1 = ''NA'' \<and> mKind rex_row2 = ''Dog'' \<and>
   snd (AddAnimal [''A100'' \<mapsto> rex_row1] rex_row2) =
     rex_row1\<lparr>mColor1 := ''brown'', mDateTime := date_2024_01_10\<rparr> \<and>
   mKind (snd (AddAnimal [''A100'' \<mapsto> rex_row1] rex_row2)) = ''NA''"
  by (simp add: AddAnimal_def Lookup_def UpdateIfNewer_def Let_def rex_row1_def rex_row2_def
        new_Animal_def NaString_def date_2024_01_01_def date_2024_01_10_def)

section \<open>Properties of the pairing engine\<close>

text \<open>The definitions that make up \<open>MergeAnimal\<close>, for evaluating it on given animals.\<close>

lemmas engine_defs =
  MergeAnimal_def MergeAnimal_from_def MergeAnimal_init_def MergeAnimal_rest_def
  MergeAnimal_body_def GetIntakeAt_def GetOutcomeAt_def GetNumIntakes_def GetNumOutcomes_def
  EmitSolitaryIntake_def EmitIntakeOutcome_def EmitSolitaryOutcome_def Append_def Warning_def
  CompareByDay_def

lemma MergeAnimal_init_inv: "MergeAnimal_inv animal (MergeAnimal_init animal out)"
  by (simp add: MergeAnimal_inv_def MergeAnimal_init_def GetNumIntakes_def GetNumOutcomes_def)

lemma MergeAnimal_body_progress:
  assumes "MergeAnimal_inv animal s" and "0 < numIntakesRemaining s"
  shows "\<exists>s'. MergeAnimal_body animal s = Inr s' \<and> MergeAnimal_inv animal s' \<and>
           (numOutcomesRemaining s' = numOutcomesRemaining s - 1 \<and>
            nextOutcome s' = nextOutcome s + 1 \<and>
            numIntakesRemaining s' \<le> numIntakesRemaining s
          \<or> numOutcomesRemaining s' = numOutcomesRemaining s \<and>
            numIntakesRemaining s' < numIntakesRemaining s \<and>
            nextIntake s < nextIntake s')"
  using assms
  by (auto simp: MergeAnimal_body_def MergeAnimal_inv_def GetIntakeAt_def GetOutcomeAt_def
        GetNumIntakes_def GetNumOutcomes_def Let_def)

lemma MergeAnimal_reaches_inv:
  "MergeAnimal_reaches animal out s \<Longrightarrow> MergeAnimal_inv animal s"
proof (induction rule: MergeAnimal_reaches.induct)
  case start
  show ?case by (rule MergeAnimal_init_inv)
next
  case (iterate s s')
  then show ?case using MergeAnimal_body_progress [of animal s] by auto
qed

lemma MergeAnimal_loop_exit:
  "\<not> 0 < numIntakesRemaining s \<Longrightarrow> MergeAnimal_loop animal s = Inr s"
  by (subst MergeAnimal_loop.simps) simp

lemma MergeAnimal_loop_step:
  "0 < numIntakesRemaining s \<Longrightarrow> MergeAnimal_body animal s = Inr s' \<Longrightarrow>
   MergeAnimal_loop animal s = MergeAnimal_loop animal s'"
  by (subst MergeAnimal_loop.simps) simp

lemma MergeAnimal_reaches_loop:
  "MergeAnimal_reaches animal out s \<Longrightarrow>
   MergeAnimal_loop animal (MergeAnimal_init animal out) = MergeAnimal_loop animal s"
  by (induction rule: MergeAnimal_reaches.induct) (simp_all add: MergeAnimal_loop_step)

lemma MergeAnimal_loop_bounded_run:
  "MergeAnimal_inv animal s \<Longrightarrow> nat (numIntakesRemaining s + numOutcomesRemaining s) \<le> k \<Longrightarrow>
   \<exists>s'. MergeAnimal_loop_bounded k animal s = Some (Inr s') \<and>
        MergeAnimal_loop animal s = Inr s' \<and> MergeAnimal_inv animal s' \<and>
        numIntakesRemaining s' = 0"
proof (induction k arbitrary: s)
  case 0
  then have "numIntakesRemaining s = 0"
    by (simp add: MergeAnimal_inv_def)
  with 0 show ?case
    by (simp add: MergeAnimal_loop_exit)
next
  case (Suc k)
  show ?case
  proof (cases "0 < numIntakesRemaining s")
    case False
    with Suc.prems have "numIntakesRemaining s = 0"
      by (simp add: MergeAnimal_inv_def)
    with Suc.prems show ?thesis
      by (simp add: MergeAnimal_loop_exit)
  next
    case True
    from MergeAnimal_body_progress [OF Suc.prems(1) True]
    obtain s1 where b: "MergeAnimal_body animal s = Inr s1"
      and i: "MergeAnimal_inv animal s1"
      and d: "numIntakesRemaining s1 + numOutcomesRemaining s1
                < numIntakesRemaining s + numOutcomesRemaining s"
      by auto
    from d Suc.prems(2) have "nat (numIntakesRemaining s1 + numOutcomesRemaining s1) \<le> k"
      by linarith
    from Suc.IH [OF i this] obtain s' where
      "MergeAnimal_loop_bounded k animal s1 = Some (Inr s')"
      "MergeAnimal_loop animal s1 = Inr s'" "MergeAnimal_inv animal s'"
      "numIntakesRemaining s' = 0"
      by blast
    with True b show ?thesis
      by (simp add: MergeAnimal_loop_step)
  qed
qed

lemma MergeAnimal_rest_returns:
  "MergeAnimal_inv animal s \<Longrightarrow> \<exists>out'. MergeAnimal_rest animal s = Inr out'"
  by (auto simp: MergeAnimal_rest_def MergeAnimal_inv_def GetOutcomeAt_def GetNumOutcomes_def)

lemma MergeAnimal_loop_invariant_aux:
  "MergeAnimal_loop animal s = Inr s' \<Longrightarrow> I s \<Longrightarrow>
   \<forall>t t'. I t \<and> 0 < numIntakesRemaining t \<and> MergeAnimal_body animal t = Inr t' \<longrightarrow> I t' \<Longrightarrow>
   I s' \<and> \<not> 0 < numIntakesRemaining s'"
proof (induction animal s rule: MergeAnimal_loop.induct)
  case (1 animal s)
  show ?case
  proof (cases "0 < numIntakesRemaining s")
    case False
    with "1.prems"(1,2) show ?thesis
      by (simp add: MergeAnimal_loop_exit)
  next
    case True
    with "1.prems"(1) obtain s1 where b: "MergeAnimal_body animal s = Inr s1"
      and l: "MergeAnimal_loop animal s1 = Inr s'"
      by (subst (asm) MergeAnimal_loop.simps) (auto split: sum.splits)
    have "I s1"
      using "1.prems"(2,3) True b by blast
    from "1.IH" [OF True b l this "1.prems"(3)] show ?thesis .
  qed
qed

lemma MergeAnimal_loop_invariant:
  assumes "MergeAnimal_loop animal s = Inr s'" and "I s"
    and "\<And>t t'. I t \<Longrightarrow> 0 < numIntakesRemaining t \<Longrightarrow> MergeAnimal_body animal t = Inr t' \<Longrightarrow> I t'"
  shows "I s'"
  using MergeAnimal_loop_invariant_aux [OF assms(1), of I] assms(2,3) by blast

text \<open>
  Claim C10. For every animal, whatever its lists of intakes and outcomes,
  \<open>MergeAnimal\<close> returns (it neither runs forever nor throws); its loop ends within
  as many iterations as there are intakes and outcomes together; and every
  iteration that a run performs either consumes exactly one outcome (the intake
  counter does not grow) or consumes at least one intake.
\<close>

theorem MergeAnimal_terminates:
  "(\<exists>out'. MergeAnimal animal out = Inr out') \<and>
   MergeAnimal_loop_bounded (nat (GetNumIntakes animal + GetNumOutcomes animal)) animal
       (MergeAnimal_init animal out)
     = Some (MergeAnimal_loop animal (MergeAnimal_init animal out)) \<and>
   (MergeAnimal_reaches animal out s \<and> 0 < numIntakesRemaining s \<longrightarrow>
      (\<exists>s'. MergeAnimal_body animal s = Inr s' \<and>
         (numOutcomesRemaining s' = numOutcomesRemaining s - 1 \<and>
          nextOutcome s' = nextOutcome s + 1 \<and>
          numIntakesRemaining s' \<le> numIntakesRemaining s
        \<or> numOutcomesRemaining s' = numOutcomesRemaining s \<and>
          numIntakesRemaining s' < numIntakesRemaining s \<and>
          nextIntake s < nextIntake s')))"
proof -
  let ?init = "MergeAnimal_init animal out"
  have "nat (numIntakesRemaining ?init + numOutcomesRemaining ?init)
          \<le> nat (GetNumIntakes animal + GetNumOutcomes animal)"
    by (simp add: MergeAnimal_init_def)
  from MergeAnimal_loop_bounded_run [OF MergeAnimal_init_inv this]
  obtain s' where r: "MergeAnimal_loop_bounded (nat (GetNumIntakes animal + GetNumOutcomes animal))
        animal ?init = Some (Inr s')"
    "MergeAnimal_loop animal ?init = Inr s'" "MergeAnimal_inv animal s'"
    by blast
  from MergeAnimal_rest_returns [OF r(3)] r(2)
  have 1: "\<exists>out'. MergeAnimal animal out = Inr out'"
    by (simp add: MergeAnimal_def MergeAnimal_from_def)
  have 3: "\<exists>s'. MergeAnimal_body animal s = Inr s' \<and>
         (numOutcomesRemaining s' = numOutcomesRemaining s - 1 \<and>
          nextOutcome s' = nextOutcome s + 1 \<and>
          numIntakesRemaining s' \<le> numIntakesRemaining s
        \<or> numOutcomesRemaining s' = numOutcomesRemaining s \<and>
          numIntakesRemaining s' < numIntakesRemaining s \<and>
          nextIntake s < nextIntake s')"
    if "MergeAnimal_reaches animal out s" and "0 < numIntakesRemaining s"
    using MergeAnimal_body_progress [OF MergeAnimal_reaches_inv [OF that(1)] that(2)] by blast
  from 1 r(1,2) 3 show ?thesis
    by simp
qed

theorem MergeAnimal_terminates_witness:
  "MergeAnimal_reaches scenario_A no_output (MergeAnimal_init scenario_A no_output) \<and>
   0 < numIntakesRemaining (MergeAnimal_init scenario_A no_output) \<and>
   (\<exists>out'. MergeAnimal scenario_A no_output = Inr out') \<and>
   MergeAnimal_loop_bounded 2 scenario_A (MergeAnimal_init scenario_A no_output)
     = Some (MergeAnimal_loop scenario_A (MergeAnimal_init scenario_A no_output)) \<and>
   (\<exists>s'. MergeAnimal_body scenario_A (MergeAnimal_init scenario_A no_output) = Inr s' \<and>
      numOutcomesRemaining s' = 0 \<and> nextOutcome s' = 1 \<and> numIntakesRemaining s' \<le> 1)"
proof -
  let ?s = "MergeAnimal_init scenario_A no_output"
  have r: "MergeAnimal_reaches scenario_A no_output ?s"
    by (rule MergeAnimal_reaches.start)
  have g: "0 < numIntakesRemaining ?s"
    by (simp add: MergeAnimal_init_def GetNumIntakes_def scenario_A_def)
  have n: "nat (GetNumIntakes scenario_A + GetNumOutcomes scenario_A) = 2"
    by (simp add: GetNumIntakes_def GetNumOutcomes_def scenario_A_def)
  have v: "numOutcomesRemaining ?s = 1" "nextOutcome ?s = 0" "numIntakesRemaining ?s = 1"
    by (simp_all add: MergeAnimal_init_def GetNumIntakes_def GetNumOutcomes_def scenario_A_def)
  have b: "numOutcomesRemaining s' = 0"
    if "MergeAnimal_body scenario_A ?s = Inr s'" for s'
    using that
    by (simp add: engine_defs scenario_A_def new_Animal_def stray_intake_def adoption_def
          date_2024_01_01_def date_2024_01_05_def Let_def) auto
  from MergeAnimal_terminates [of scenario_A no_output ?s] r g n v b show ?thesis
    by auto
qed

text \<open>
  For an animal without intakes the loop is not entered, and the statements after
  it write one row, for the first outcome, however many outcomes there are.
\<close>

lemma MergeAnimal_no_intake:
  assumes "mIntakeList animal = []" and "mOutcomeList animal = outcome # outcomes"
  shows "MergeAnimal animal out =
     Inr (out\<lparr>mImpoundTable := mImpoundTable out @
            [\<lparr>rowAnimalId = mAnimalId animal, rowIntake = None, rowOutcome = Some outcome\<rparr>]\<rparr>)"
  using assms by (simp add: engine_defs MergeAnimal_loop_exit)

text \<open>
  Claim C2, at an animal with no intake and two outcomes. The run writes a single
  solitary outcome row, for the first outcome; the second outcome gets no row and
  no warning is printed.
\<close>

theorem MergeAnimal_two_outcomes_no_intake:
  "MergeAnimal two_outcomes_no_intake no_output =
     Inr \<lparr>mImpoundTable = [\<lparr>rowAnimalId = ''A200'', rowIntake = None,
                              rowOutcome = Some (adoption date_2024_02_01)\<rparr>],
          Rcout = []\<rparr>"
  by (simp add: engine_defs two_outcomes_no_intake_def new_Animal_def no_output_def
        MergeAnimal_loop_exit)

lemma MergeAnimal_run:
  "\<exists>s' out'. MergeAnimal_loop animal (MergeAnimal_init animal out) = Inr s' \<and>
     MergeAnimal_inv animal s' \<and> numIntakesRemaining s' = 0 \<and>
     MergeAnimal_rest animal s' = Inr out' \<and> MergeAnimal animal out = Inr out'"
proof -
  from MergeAnimal_loop_bounded_run [OF MergeAnimal_init_inv order_refl]
  obtain s' where l: "MergeAnimal_loop animal (MergeAnimal_init animal out) = Inr s'"
    and i: "MergeAnimal_inv animal s'" and z: "numIntakesRemaining s' = 0"
    by blast
  from MergeAnimal_rest_returns [OF i] obtain out' where "MergeAnimal_rest animal s' = Inr out'"
    by blast
  with l i z show ?thesis
    by (simp add: MergeAnimal_def MergeAnimal_from_def)
qed

lemma not_EarlierDay: "d \<noteq> EarlierDay \<Longrightarrow> d = SameDay \<or> d = LaterDay"
  by (cases d) simp_all

lemma MergeAnimal_body_rows:
  assumes "MergeAnimal_body animal t = Inr t'"
  shows "\<exists>new. mImpoundTable (written t') = mImpoundTable (written t) @ new \<and>
           (\<forall>row\<in>set new. \<forall>intake outcome.
              rowIntake row = Some intake \<and> rowOutcome row = Some outcome \<longrightarrow>
              (CompareByDay (mOutcomeDate outcome) (mIntakeDate intake) = SameDay \<or>
               CompareByDay (mOutcomeDate outcome) (mIntakeDate intake) = LaterDay))"
  using assms
  by (auto simp: MergeAnimal_body_def EmitSolitaryIntake_def EmitIntakeOutcome_def
        EmitSolitaryOutcome_def Append_def Warning_def Let_def
        split: sum.splits if_splits dest: not_EarlierDay)

lemma MergeAnimal_rest_rows:
  assumes "MergeAnimal_rest animal t = Inr out'"
  shows "\<exists>new. mImpoundTable out' = mImpoundTable (written t) @ new \<and>
           (\<forall>row\<in>set new. rowIntake row = None)"
  using assms
  by (auto simp: MergeAnimal_rest_def EmitSolitaryOutcome_def Append_def Warning_def
        split: sum.splits if_splits)

text \<open>
  Claim C4. Every row that a run of \<open>MergeAnimal\<close> appends to the impound table and
  that holds both an intake and an outcome has its outcome on the same day as the
  intake or on a later day, never on an earlier day.
\<close>

theorem MergeAnimal_paired_rows_not_earlier:
  "\<exists>out' rows. MergeAnimal animal out = Inr out' \<and>
     mImpoundTable out' = mImpoundTable out @ rows \<and>
     (\<forall>row\<in>set rows. \<forall>intake outcome.
        rowIntake row = Some intake \<and> rowOutcome row = Some outcome \<longrightarrow>
        (CompareByDay (mOutcomeDate outcome) (mIntakeDate intake) = SameDay \<or>
         CompareByDay (mOutcomeDate outcome) (mIntakeDate intake) = LaterDay))"
proof -
  let ?ok = "\<lambda>row. \<forall>intake outcome.
        rowIntake row = Some intake \<and> rowOutcome row = Some outcome \<longrightarrow>
        (CompareByDay (mOutcomeDate outcome) (mIntakeDate intake) = SameDay \<or>
         CompareByDay (mOutcomeDate outcome) (mIntakeDate intake) = LaterDay)"
  let ?I = "\<lambda>t. \<exists>rows. mImpoundTable (written t) = mImpoundTable out @ rows \<and>
        (\<forall>row\<in>set rows. ?ok row)"
  let ?init = "MergeAnimal_init animal out"
  from MergeAnimal_run [of animal out] obtain s' out' where
    l: "MergeAnimal_loop animal ?init = Inr s'"
    and r: "MergeAnimal_rest animal s' = Inr out'"
    and m: "MergeAnimal animal out = Inr out'"
    by blast
  have i0: "?I ?init"
    by (simp add: MergeAnimal_init_def)
  have step: "?I t'" if "?I t" and "MergeAnimal_body animal t = Inr t'" for t t'
  proof -
    from that(1) obtain rows where a: "mImpoundTable (written t) = mImpoundTable out @ rows"
      and b: "\<forall>row\<in>set rows. ?ok row"
      by blast
    from MergeAnimal_body_rows [OF that(2)] obtain new where
      c: "mImpoundTable (written t') = mImpoundTable (written t) @ new"
      and d: "\<forall>row\<in>set new. ?ok row"
      by blast
    from a c have "mImpoundTable (written t') = mImpoundTable out @ (rows @ new)"
      by simp
    moreover from b d have "\<forall>row\<in>set (rows @ new). ?ok row"
      by auto
    ultimately show ?thesis
      by blast
  qed
  have "?I s'"
    using l i0 step by (rule MergeAnimal_loop_invariant)
  then obtain rows where a: "mImpoundTable (written s') = mImpoundTable out @ rows"
    and b: "\<forall>row\<in>set rows. ?ok row"
    by blast
  from MergeAnimal_rest_rows [OF r] obtain new where
    c: "mImpoundTable out' = mImpoundTable (written s') @ new"
    and d: "\<forall>row\<in>set new. rowIntake row = None"
    by blast
  from a c have "mImpoundTable out' = mImpoundTable out @ (rows @ new)"
    by simp
  moreover from b d have "\<forall>row\<in>set (rows @ new). ?ok row"
    by auto
  ultimately show ?thesis
    using m by blast
qed

theorem MergeAnimal_paired_rows_not_earlier_witness:
  "MergeAnimal scenario_A no_output =
     Inr \<lparr>mImpoundTable = [\<lparr>rowAnimalId = ''A100'',
                              rowIntake = Some (stray_intake date_2024_01_01),
                              rowOutcome = Some (adoption date_2024_01_05)\<rparr>],
          Rcout = []\<rparr> \<and>
   (CompareByDay (mOutcomeDate (adoption date_2024_01_05))
                 (mIntakeDate (stray_intake date_2024_01_01)) = SameDay \<or>
    CompareByDay (mOutcomeDate (adoption date_2024_01_05))
                 (mIntakeDate (stray_intake date_2024_01_01)) = LaterDay)"
proof -
  let ?row = "\<lparr>rowAnimalId = ''A100'', rowIntake = Some (stray_intake date_2024_01_01),
                rowOutcome = Some (adoption date_2024_01_05)\<rparr>"
  have e: "MergeAnimal scenario_A no_output = Inr \<lparr>mImpoundTable = [?row], Rcout = []\<rparr>"
    by (simp add: engine_defs MergeAnimal_loop.simps scenario_A_def new_Animal_def no_output_def
          stray_intake_def adoption_def date_2024_01_01_def date_2024_01_05_def)
  from MergeAnimal_paired_rows_not_earlier [of scenario_A no_output] e
  obtain rows where "rows = [?row]"
    and ok: "\<forall>row\<in>set rows. \<forall>intake outcome.
        rowIntake row = Some intake \<and> rowOutcome row = Some outcome \<longrightarrow>
        (CompareByDay (mOutcomeDate outcome) (mIntakeDate intake) = SameDay \<or>
         CompareByDay (mOutcomeDate outcome) (mIntakeDate intake) = LaterDay)"
    by (auto simp: no_output_def)
  then have "?row \<in> set rows"
    by simp
  with ok have "CompareByDay (mOutcomeDate (adoption date_2024_01_05))
                 (mIntakeDate (stray_intake date_2024_01_01)) = SameDay \<or>
    CompareByDay (mOutcomeDate (adoption date_2024_01_05))
                 (mIntakeDate (stray_intake date_2024_01_01)) = LaterDay"
    by fastforce
  with e show ?thesis
    by simp
qed

lemma GetIntakeAt_last:
  "mIntakeList animal \<noteq> [] \<Longrightarrow>
   GetIntakeAt animal (GetNumIntakes animal - 1) = Inr (last (mIntakeList animal))"
  by (cases "mIntakeList animal" rule: rev_cases)
     (simp_all add: GetIntakeAt_def GetNumIntakes_def nat_diff_distrib' nth_append)

text \<open>
  Claim C5. Whenever a run of \<open>MergeAnimal\<close> stands at the head of its loop with no
  outcome remaining and more than one intake remaining, the iteration prints the
  warning "Intake not matched with outcome." once, appends one solitary intake row
  made from the last intake of the animal's list and consumes all remaining
  intakes; the run then ends with exactly what that iteration has written, so no
  row is written for the earlier remaining intakes.
\<close>

theorem MergeAnimal_unmatched_intakes:
  assumes "MergeAnimal_reaches animal out s"
    and "numOutcomesRemaining s = 0"
    and "1 < numIntakesRemaining s"
  shows "\<exists>s'. MergeAnimal_body animal s = Inr s' \<and>
           numIntakesRemaining s' = 0 \<and> nextIntake s' = GetNumIntakes animal \<and>
           written s' =
             \<lparr>mImpoundTable = mImpoundTable (written s) @
                [\<lparr>rowAnimalId = mAnimalId animal,
                  rowIntake = Some (last (mIntakeList animal)), rowOutcome = None\<rparr>],
              Rcout = Rcout (written s) @
                [''WARNING '' @ mAnimalId animal @ '' - Intake not matched with outcome.'']\<rparr> \<and>
           MergeAnimal animal out = Inr (written s')"
proof -
  have inv: "MergeAnimal_inv animal s"
    using assms(1) by (rule MergeAnimal_reaches_inv)
  with assms(3) have ne: "mIntakeList animal \<noteq> []"
    by (auto simp: MergeAnimal_inv_def GetNumIntakes_def)
  from inv assms(3) have "0 \<le> nextIntake s \<and> nextIntake s < int (length (mIntakeList animal))"
    by (auto simp: MergeAnimal_inv_def GetNumIntakes_def)
  then obtain intake where g: "GetIntakeAt animal (nextIntake s) = Inr intake"
    by (simp add: GetIntakeAt_def)
  define s' where "s' = s\<lparr>written := EmitSolitaryIntake animal (last (mIntakeList animal))
                            (Warning animal ''Intake not matched with outcome.'' (written s)),
                         numIntakesRemaining := 0, nextIntake := GetNumIntakes animal\<rparr>"
  have b: "MergeAnimal_body animal s = Inr s'"
    using assms(2,3) g GetIntakeAt_last [OF ne]
    by (simp add: MergeAnimal_body_def s'_def)
  have w: "written s' =
             \<lparr>mImpoundTable = mImpoundTable (written s) @
                [\<lparr>rowAnimalId = mAnimalId animal,
                  rowIntake = Some (last (mIntakeList animal)), rowOutcome = None\<rparr>],
              Rcout = Rcout (written s) @
                [''WARNING '' @ mAnimalId animal @ '' - Intake not matched with outcome.'']\<rparr>"
    by (simp add: s'_def EmitSolitaryIntake_def Append_def Warning_def)
  have "MergeAnimal_loop animal (MergeAnimal_init animal out) = MergeAnimal_loop animal s"
    using assms(1) by (rule MergeAnimal_reaches_loop)
  also have "\<dots> = MergeAnimal_loop animal s'"
    using assms(3) b by (simp add: MergeAnimal_loop_step)
  also have "\<dots> = Inr s'"
    by (simp add: MergeAnimal_loop_exit s'_def)
  finally have "MergeAnimal animal out = MergeAnimal_rest animal s'"
    by (simp add: MergeAnimal_def MergeAnimal_from_def)
  also have "\<dots> = Inr (written s')"
    using assms(2) by (simp add: MergeAnimal_rest_def s'_def)
  finally have "MergeAnimal animal out = Inr (written s')" .
  with b w show ?thesis
    by (simp add: s'_def)
qed

theorem MergeAnimal_unmatched_intakes_witness:
  "MergeAnimal_reaches scenario_B no_output (MergeAnimal_init scenario_B no_output) \<and>
   numOutcomesRemaining (MergeAnimal_init scenario_B no_output) = 0 \<and>
   1 < numIntakesRemaining (MergeAnimal_init scenario_B no_output) \<and>
   MergeAnimal scenario_B no_output =
     Inr \<lparr>mImpoundTable = [\<lparr>rowAnimalId = ''A100'',
                              rowIntake = Some (stray_intake date_2024_01_10),
                              rowOutcome = None\<rparr>],
          Rcout = [''WARNING A100 - Intake not matched with outcome.'']\<rparr>"
proof -
  let ?s = "MergeAnimal_init scenario_B no_output"
  have r: "MergeAnimal_reaches scenario_B no_output ?s"
    by (rule MergeAnimal_reaches.start)
  have o: "numOutcomesRemaining ?s = 0"
    by (simp add: MergeAnimal_init_def GetNumOutcomes_def scenario_B_def new_Animal_def)
  have i: "1 < numIntakesRemaining ?s"
    by (simp add: MergeAnimal_init_def GetNumIntakes_def scenario_B_def)
  have w: "written ?s = no_output"
    by (simp add: MergeAnimal_init_def)
  from MergeAnimal_unmatched_intakes [OF r o i] w
  have "MergeAnimal scenario_B no_output =
     Inr \<lparr>mImpoundTable = mImpoundTable no_output @
            [\<lparr>rowAnimalId = mAnimalId scenario_B,
              rowIntake = Some (last (mIntakeList scenario_B)), rowOutcome = None\<rparr>],
          Rcout = Rcout no_output @
            [''WARNING '' @ mAnimalId scenario_B @ '' - Intake not matched with outcome.'']\<rparr>"
    by auto
  then have "MergeAnimal scenario_B no_output =
     Inr \<lparr>mImpoundTable = [\<lparr>rowAnimalId = ''A100'',
                              rowIntake = Some (stray_intake date_2024_01_10),
                              rowOutcome = None\<rparr>],
          Rcout = [''WARNING A100 - Intake not matched with outcome.'']\<rparr>"
    by (simp add: scenario_B_def new_Animal_def no_output_def)
  with r o i show ?thesis
    by simp
qed

lemma GetIntakeAt_first:
  "mIntakeList animal \<noteq> [] \<Longrightarrow> GetIntakeAt animal 0 = Inr (hd (mIntakeList animal))"
  by (simp add: GetIntakeAt_def hd_conv_nth)

text \<open>
  Claim C6. For an animal whose events are exactly one intake and one outcome, the
  outcome on an earlier day than the intake, \<open>MergeAnimal\<close> appends exactly two
  rows, first a solitary outcome row for the outcome and then a solitary intake row
  for the intake, and prints no warning. More generally, when a run stands at the
  head of its loop with no intake consumed yet and an outcome remaining, and the
  next outcome lies on an earlier day than the first intake, the iteration appends
  a solitary outcome row for that outcome, prints nothing, advances the outcome
  cursor and leaves the intake cursor and the intake counter as they were.
\<close>

theorem MergeAnimal_outcome_before_first_intake:
  "(mIntakeList animal = [intake] \<and> mOutcomeList animal = [outcome] \<and>
    CompareByDay (mOutcomeDate outcome) (mIntakeDate intake) = EarlierDay \<longrightarrow>
    MergeAnimal animal out =
      Inr (out\<lparr>mImpoundTable := mImpoundTable out @
             [\<lparr>rowAnimalId = mAnimalId animal, rowIntake = None, rowOutcome = Some outcome\<rparr>,
              \<lparr>rowAnimalId = mAnimalId animal, rowIntake = Some intake, rowOutcome = None\<rparr>]\<rparr>))
   \<and>
   (MergeAnimal_reaches animal out s \<and> 0 < numIntakesRemaining s \<and>
    numIntakesRemaining s = GetNumIntakes animal \<and> 0 < numOutcomesRemaining s \<and>
    CompareByDay (mOutcomeDate (mOutcomeList animal ! nat (nextOutcome s)))
                 (mIntakeDate (hd (mIntakeList animal))) = EarlierDay \<longrightarrow>
    MergeAnimal_body animal s =
      Inr (s\<lparr>numOutcomesRemaining := numOutcomesRemaining s - 1,
             nextOutcome := nextOutcome s + 1,
             written := (written s)\<lparr>mImpoundTable := mImpoundTable (written s) @
               [\<lparr>rowAnimalId = mAnimalId animal, rowIntake = None,
                 rowOutcome = Some (mOutcomeList animal ! nat (nextOutcome s))\<rparr>]\<rparr>\<rparr>))"
proof (intro conjI impI)
  assume a: "mIntakeList animal = [intake] \<and> mOutcomeList animal = [outcome] \<and>
    CompareByDay (mOutcomeDate outcome) (mIntakeDate intake) = EarlierDay"
  let ?s0 = "MergeAnimal_init animal out"
  let ?s1 = "?s0\<lparr>numOutcomesRemaining := 0, nextOutcome := 1,
                 written := EmitSolitaryOutcome animal outcome out\<rparr>"
  let ?s2 = "?s1\<lparr>written := EmitSolitaryIntake animal intake (written ?s1),
                 numIntakesRemaining := 0, nextIntake := 1\<rparr>"
  have b1: "MergeAnimal_body animal ?s0 = Inr ?s1"
    using a by (simp add: MergeAnimal_body_def MergeAnimal_init_def GetIntakeAt_def
        GetOutcomeAt_def GetNumIntakes_def GetNumOutcomes_def)
  have b2: "MergeAnimal_body animal ?s1 = Inr ?s2"
    using a by (simp add: MergeAnimal_body_def MergeAnimal_init_def GetIntakeAt_def
        GetNumIntakes_def GetNumOutcomes_def)
  have "MergeAnimal_loop animal ?s0 = MergeAnimal_loop animal ?s1"
    using a b1 by (intro MergeAnimal_loop_step) (simp_all add: MergeAnimal_init_def GetNumIntakes_def)
  also have "\<dots> = MergeAnimal_loop animal ?s2"
    using a b2 by (intro MergeAnimal_loop_step) (simp_all add: MergeAnimal_init_def GetNumIntakes_def)
  also have "\<dots> = Inr ?s2"
    by (intro MergeAnimal_loop_exit) simp
  finally have "MergeAnimal animal out = MergeAnimal_rest animal ?s2"
    by (simp add: MergeAnimal_def MergeAnimal_from_def)
  then show "MergeAnimal animal out =
      Inr (out\<lparr>mImpoundTable := mImpoundTable out @
             [\<lparr>rowAnimalId = mAnimalId animal, rowIntake = None, rowOutcome = Some outcome\<rparr>,
              \<lparr>rowAnimalId = mAnimalId animal, rowIntake = Some intake, rowOutcome = None\<rparr>]\<rparr>)"
    by (simp add: MergeAnimal_rest_def EmitSolitaryOutcome_def EmitSolitaryIntake_def Append_def)
next
  assume a: "MergeAnimal_reaches animal out s \<and> 0 < numIntakesRemaining s \<and>
    numIntakesRemaining s = GetNumIntakes animal \<and> 0 < numOutcomesRemaining s \<and>
    CompareByDay (mOutcomeDate (mOutcomeList animal ! nat (nextOutcome s)))
                 (mIntakeDate (hd (mIntakeList animal))) = EarlierDay"
  then have inv: "MergeAnimal_inv animal s"
    by (blast intro: MergeAnimal_reaches_inv)
  with a have n: "nextIntake s = 0" and ne: "mIntakeList animal \<noteq> []"
    by (auto simp: MergeAnimal_inv_def GetNumIntakes_def)
  from inv a have o: "GetOutcomeAt animal (nextOutcome s) =
      Inr (mOutcomeList animal ! nat (nextOutcome s))"
    by (auto simp: MergeAnimal_inv_def GetOutcomeAt_def GetNumOutcomes_def)
  from a n o GetIntakeAt_first [OF ne]
  show "MergeAnimal_body animal s =
      Inr (s\<lparr>numOutcomesRemaining := numOutcomesRemaining s - 1,
             nextOutcome := nextOutcome s + 1,
             written := (written s)\<lparr>mImpoundTable := mImpoundTable (written s) @
               [\<lparr>rowAnimalId = mAnimalId animal, rowIntake = None,
                 rowOutcome = Some (mOutcomeList animal ! nat (nextOutcome s))\<rparr>]\<rparr>\<rparr>)"
    by (simp add: MergeAnimal_body_def EmitSolitaryOutcome_def Append_def)
qed

theorem MergeAnimal_outcome_before_first_intake_witness:
  "mIntakeList scenario_D = [stray_intake date_2024_03_05] \<and>
   mOutcomeList scenario_D = [adoption date_2024_03_01] \<and>
   CompareByDay (mOutcomeDate (adoption date_2024_03_01))
                (mIntakeDate (stray_intake date_2024_03_05)) = EarlierDay \<and>
   MergeAnimal_reaches scenario_D no_output (MergeAnimal_init scenario_D no_output) \<and>
   0 < numIntakesRemaining (MergeAnimal_init scenario_D no_output) \<and>
   numIntakesRemaining (MergeAnimal_init scenario_D no_output) = GetNumIntakes scenario_D \<and>
   0 < numOutcomesRemaining (MergeAnimal_init scenario_D no_output) \<and>
   MergeAnimal scenario_D no_output =
     Inr \<lparr>mImpoundTable =
            [\<lparr>rowAnimalId = ''A100'', rowIntake = None,
              rowOutcome = Some (adoption date_2024_03_01)\<rparr>,
             \<lparr>rowAnimalId = ''A100'', rowIntake = Some (stray_intake date_2024_03_05),
              rowOutcome = None\<rparr>],
          Rcout = []\<rparr> \<and>
   MergeAnimal_body scenario_D (MergeAnimal_init scenario_D no_output) =
     Inr \<lparr>numIntakesRemaining = 1, numOutcomesRemaining = 0, nextIntake = 0, nextOutcome = 1,
          written = \<lparr>mImpoundTable =
            [\<lparr>rowAnimalId = ''A100'', rowIntake = None,
              rowOutcome = Some (adoption date_2024_03_01)\<rparr>], Rcout = []\<rparr>\<rparr>"
proof -
  let ?s = "MergeAnimal_init scenario_D no_output"
  have l: "mIntakeList scenario_D = [stray_intake date_2024_03_05]"
    "mOutcomeList scenario_D = [adoption date_2024_03_01]"
    by (simp_all add: scenario_D_def)
  have c: "CompareByDay (mOutcomeDate (adoption date_2024_03_01))
                (mIntakeDate (stray_intake date_2024_03_05)) = EarlierDay"
    by (simp add: CompareByDay_def adoption_def stray_intake_def date_2024_03_01_def
        date_2024_03_05_def)
  have r: "MergeAnimal_reaches scenario_D no_output ?s"
    by (rule MergeAnimal_reaches.start)
  have v: "numIntakesRemaining ?s = 1" "GetNumIntakes scenario_D = 1"
    "numOutcomesRemaining ?s = 1" "nextOutcome ?s = 0" "nextIntake ?s = 0" "written ?s = no_output"
    by (simp_all add: MergeAnimal_init_def GetNumIntakes_def GetNumOutcomes_def scenario_D_def)
  have i: "mAnimalId scenario_D = ''A100''"
    by (simp add: scenario_D_def new_Animal_def)
  from MergeAnimal_outcome_before_first_intake
    [of scenario_D "stray_intake date_2024_03_05" "adoption date_2024_03_01" no_output ?s]
    l c r v i
  show ?thesis
    by (simp add: no_output_def MergeAnimal_init_def)
qed

section \<open>Properties of the event ordering\<close>























end
